theory Spec2Isabelle
  imports Main
begin

text \<open>
  The registration and login service: the two handlers of server.js
  (\<open>POST /api/register\<close>, \<open>POST /api/login\<close>) with \<open>ensureDb\<close>, the bootstrap of db.js,
  and the relational store behind them. A handler takes the request body, the module
  variables of the server and the world outside, and returns the response with the new
  server variables and the new world.
\<close>

section \<open>Values, errors and responses\<close>

text \<open>
  The request body is a parsed JSON object (\<open>bodyParser.json\<close>), so a field the handler
  destructures from it is any JSON value, or \<open>undefined\<close> when the key is absent.
  Numbers are kept as integers: the handlers only test them for truthiness.
  \<open>JObj\<close> stands for arrays and objects, which are truthy and have no \<open>trim\<close> method.
\<close>

datatype jsval = JUndefined | JNull | JBool bool | JNum int | JStr string | JObj

type_synonym body = "string \<Rightarrow> jsval"

text \<open>JavaScript truthiness, as tested by \<open>!x\<close>.\<close>

fun truthy :: "jsval \<Rightarrow> bool" where
  "truthy JUndefined = False"
| "truthy JNull = False"
| "truthy (JBool b) = b"
| "truthy (JNum n) = (n \<noteq> 0)"
| "truthy (JStr s) = (s \<noteq> [])"
| "truthy JObj = True"

text \<open>An error object as the handlers read it: \<open>err.message\<close> and \<open>err.code\<close>.\<close>

datatype js_error = JsError (err_message: string) (err_code: "string option")

text \<open>\<open>res.status(n).json({ success, message })\<close>; \<open>res.json\<close> alone answers with 200.\<close>

datatype response = Response (status: nat) (success: bool) (message: string)

section \<open>Strings\<close>

text \<open>
  Characters are read as code units below 256. \<open>String.prototype.trim\<close> removes white
  space and line terminators from both ends; in this range these are tab, line feed,
  vertical tab, form feed, carriage return, space and no-break space.
\<close>

definition is_ws :: "char \<Rightarrow> bool" where
  "is_ws c = (c \<in> {CHR 0x09, CHR 0x0A, CHR 0x0B, CHR 0x0C, CHR 0x0D, CHR 0x20, CHR 0xA0})"

definition trim :: "string \<Rightarrow> string" where
  "trim s = rev (dropWhile is_ws (rev (dropWhile is_ws s)))"

text \<open>\<open>x.trim()\<close> on a JSON value: only strings have the method.\<close>

fun trim_js :: "string \<Rightarrow> jsval \<Rightarrow> js_error + string" where
  "trim_js var (JStr s) = Inr (trim s)"
| "trim_js var v = Inl (JsError (var @ ''.trim is not a function'') None)"

fun starts_with :: "string \<Rightarrow> string \<Rightarrow> bool" where
  "starts_with s [] = True"
| "starts_with [] (p # ps) = False"
| "starts_with (c # cs) (p # ps) = (c = p \<and> starts_with cs ps)"

text \<open>\<open>s.includes(sub)\<close>: \<open>sub\<close> occurs in \<open>s\<close> as a contiguous substring.\<close>

fun includes_str :: "string \<Rightarrow> string \<Rightarrow> bool" where
  "includes_str [] sub = (sub = [])"
| "includes_str (c # cs) sub = (starts_with (c # cs) sub \<or> includes_str cs sub)"

section \<open>The credential store\<close>

text \<open>
  db.js builds the connection pool, a \<open>Pool\<close> of the pg driver for PostgreSQL, holds the
  schema and exports \<open>pool\<close>, \<open>initDatabase\<close> and a helper \<open>execute\<close>. (The sources also
  keep, after the README, an earlier db.js for MySQL, whose pool comes from mysql2; the
  calls of server.js are written in the style of that driver.)
\<close>

text \<open>
  One row of the \<open>users\<close> relation of \<open>CREATE_USERS_TABLE_SQL\<close>: \<open>id\<close>, \<open>user_id\<close>,
  \<open>name\<close>, \<open>email\<close>, \<open>phone\<close>, \<open>password\<close>, \<open>created_at\<close>.
\<close>

datatype user_row = UserRow
  (row_id: nat) (row_user_id: string) (row_name: string) (row_email: string)
  (row_phone: string) (row_password: string) (row_created_at: nat)

text \<open>The one query db.js sends on a connection: \<open>CREATE_USERS_TABLE_SQL\<close>.\<close>

datatype query = CreateUsersTable

text \<open>
  The two parametrised statements of server.js, with the parameter array in order:
  \<open>INSERT INTO users (user_id, name, email, phone, password) VALUES (?, ?, ?, ?, ?)\<close> and
  \<open>SELECT id, user_id, email, password FROM users WHERE user_id = ? OR email = ?\<close>.
\<close>

datatype statement =
    InsertUser string string string string string
  | SelectUser string string

text \<open>What reaches the store: taking a connection, and a query on it.\<close>

datatype store_call = Connect | Query query

text \<open>
  The database: the \<open>users\<close> table in storage order (\<open>None\<close> while the table does not
  exist), the next value of the \<open>id\<close> sequence and the clock behind \<open>CURRENT_TIMESTAMP\<close>.
\<close>

record database =
  users :: "user_row list option"
  next_id :: nat
  clock :: nat

text \<open>
  The world outside the process: the database, the error (if any) with which the driver
  currently fails every operation (connection refused, timeout, host not found, ...),
  and the log of the calls that reached the store.
\<close>

record world =
  db :: database
  fault :: "js_error option"
  calls :: "store_call list"

definition log_call :: "store_call \<Rightarrow> world \<Rightarrow> world" where
  "log_call c w = w\<lparr>calls := calls w @ [c]\<rparr>"

text \<open>\<open>CREATE TABLE IF NOT EXISTS users (...)\<close>.\<close>

definition create_users_table :: "database \<Rightarrow> database" where
  "create_users_table d = (case users d of None \<Rightarrow> d\<lparr>users := Some []\<rparr> | Some t \<Rightarrow> d)"

fun run_query :: "query \<Rightarrow> database \<Rightarrow> database" where
  "run_query CreateUsersTable d = create_users_table d"

text \<open>Taking a connection from the pool: \<open>pool.connect()\<close> in \<open>initDatabase\<close>.\<close>

definition pool_connect :: "world \<Rightarrow> (js_error + unit) \<times> world" where
  "pool_connect w =
     (case fault w of
        Some e \<Rightarrow> (Inl e, log_call Connect w)
      | None \<Rightarrow> (Inr (), log_call Connect w))"

text \<open>\<open>client.query(sql)\<close> on a connection taken from the pool.\<close>

definition client_query :: "query \<Rightarrow> world \<Rightarrow> (js_error + unit) \<times> world" where
  "client_query q w =
     (let w1 = log_call (Query q) w in
      case fault w1 of
        Some e \<Rightarrow> (Inl e, w1)
      | None \<Rightarrow> (Inr (), w1\<lparr>db := run_query q (db w1)\<rparr>))"

text \<open>
  \<open>pool.execute(sql, params)\<close> as server.js calls it (lines 100 and 150). server.js
  imports \<open>pool\<close> and \<open>initDatabase\<close> from db.js, and \<open>pool\<close> is the \<open>Pool\<close> of pg, which has
  \<open>connect\<close>, \<open>query\<close> and \<open>end\<close> and no \<open>execute\<close>: db.js says so itself where it defines
  its helper (``Helper to match mysql2's pool.execute (pg uses pool.query)'', ``server.js
  needs update anyway for placeholders''), and it exports that helper beside the pool, not
  as a method of it. So \<open>pool.execute\<close> is \<open>undefined\<close>, and the call, once its arguments
  are evaluated, throws a TypeError inside the \<open>try\<close> block. Nothing reaches the store.
\<close>

definition pool_execute :: "statement \<Rightarrow> world \<Rightarrow> (js_error + user_row list) \<times> world" where
  "pool_execute q w = (Inl (JsError ''pool.execute is not a function'' None), w)"

text \<open>
  \<open>initDatabase\<close> of db.js: take a connection, create the table if it is missing, release
  the connection; any error is logged and thrown again.
\<close>

definition initDatabase :: "world \<Rightarrow> (js_error + unit) \<times> world" where
  "initDatabase w =
     (case pool_connect w of
        (Inl e, w1) \<Rightarrow> (Inl e, w1)
      | (Inr u, w1) \<Rightarrow>
          (case client_query CreateUsersTable w1 of
             (Inl e, w2) \<Rightarrow> (Inl e, w2)
           | (Inr rows, w2) \<Rightarrow> (Inr (), w2)))"

section \<open>The server\<close>

text \<open>
  The two module variables of server.js behind \<open>ensureDb\<close>: \<open>dbReady\<close>, the promise of the
  running or finished initialisation with its outcome, and \<open>dbInitError\<close>. Requests are
  taken one at a time, so a promise is always settled when the next request reads it.
\<close>

record server =
  dbReady :: "(js_error + unit) option"
  dbInitError :: "js_error option"

definition initial_server :: server where
  "initial_server = \<lparr>dbReady = None, dbInitError = None\<rparr>"

definition ensureDb :: "server \<Rightarrow> world \<Rightarrow> (js_error + unit) \<times> server \<times> world" where
  "ensureDb s w =
     (let s1 = (if dbInitError s \<noteq> None then s\<lparr>dbReady := None, dbInitError := None\<rparr> else s)
      in case dbReady s1 of
           Some r \<Rightarrow> (r, s1, w)
         | None \<Rightarrow>
             (case initDatabase w of
                (Inl e, w1) \<Rightarrow> (Inl e, s1\<lparr>dbReady := Some (Inl e), dbInitError := Some e\<rparr>, w1)
              | (Inr u, w1) \<Rightarrow> (Inr (), s1\<lparr>dbReady := Some (Inr ())\<rparr>, w1)))"

text \<open>
  The bcrypt library is a parameter: \<open>bcrypt_hash data rounds salt\<close> is the hash string
  that \<open>bcrypt.hash(data, rounds)\<close> resolves to when it draws \<open>salt\<close>, and
  \<open>bcrypt_compare data hash\<close> is what \<open>bcrypt.compare(data, hash)\<close> resolves to.
\<close>

record bcrypt =
  bcrypt_hash :: "string \<Rightarrow> nat \<Rightarrow> string \<Rightarrow> string"
  bcrypt_compare :: "string \<Rightarrow> string \<Rightarrow> bool"

text \<open>Both calls reject data that is not a string.\<close>

fun hash_js :: "bcrypt \<Rightarrow> jsval \<Rightarrow> nat \<Rightarrow> string \<Rightarrow> js_error + string" where
  "hash_js bc (JStr p) rounds salt = Inr (bcrypt_hash bc p rounds salt)"
| "hash_js bc v rounds salt =
     Inl (JsError ''data must be a string or Buffer and salt must either be a salt string or a number of rounds'' None)"

fun compare_js :: "bcrypt \<Rightarrow> jsval \<Rightarrow> string \<Rightarrow> js_error + bool" where
  "compare_js bc (JStr p) h = Inr (bcrypt_compare bc p h)"
| "compare_js bc v h = Inl (JsError ''data and hash must be strings'' None)"

subsection \<open>POST /api/register\<close>

text \<open>The \<open>catch\<close> block of the registration handler.\<close>

definition register_catch :: "js_error \<Rightarrow> response" where
  "register_catch err =
     (if err_code err = Some ''ER_DUP_ENTRY''
      then Response 400 False ''User ID or Email already exists.''
      else if err_message err \<noteq> [] \<and> includes_str (err_message err) ''DB_PASSWORD''
      then Response 500 False ''Database configuration error. Please check server logs.''
      else if err_code err = Some ''ECONNREFUSED'' \<or> err_code err = Some ''ETIMEDOUT''
      then Response 500 False ''Database connection failed. Please try again later.''
      else Response 500 False ''Server error. Please try again.'')"

text \<open>
  The parameter array of the INSERT: the four trimmed fields, evaluated in order, and the
  hash. A field that is not a string throws at its \<open>trim\<close>.
\<close>

definition insert_statement :: "body \<Rightarrow> string \<Rightarrow> js_error + statement" where
  "insert_statement b hashedPassword =
     (case trim_js ''user_id'' (b ''user_id'') of Inl e \<Rightarrow> Inl e | Inr uid \<Rightarrow>
      case trim_js ''name'' (b ''name'') of Inl e \<Rightarrow> Inl e | Inr nm \<Rightarrow>
      case trim_js ''email'' (b ''email'') of Inl e \<Rightarrow> Inl e | Inr em \<Rightarrow>
      case trim_js ''phone'' (b ''phone'') of Inl e \<Rightarrow> Inl e | Inr ph \<Rightarrow>
        Inr (InsertUser uid nm em ph hashedPassword))"

text \<open>The \<open>try\<close> block of the registration handler; \<open>Inl\<close> is a thrown error.\<close>

definition register_try ::
  "bcrypt \<Rightarrow> string \<Rightarrow> body \<Rightarrow> server \<Rightarrow> world \<Rightarrow> (js_error + response) \<times> server \<times> world" where
  "register_try bc salt b s w =
     (case ensureDb s w of
        (Inl e, s1, w1) \<Rightarrow> (Inl e, s1, w1)
      | (Inr u, s1, w1) \<Rightarrow>
          (case hash_js bc (b ''password'') 10 salt of
             Inl e \<Rightarrow> (Inl e, s1, w1)
           | Inr hashedPassword \<Rightarrow>
               (case insert_statement b hashedPassword of
                  Inl e \<Rightarrow> (Inl e, s1, w1)
                | Inr q \<Rightarrow>
                    (case pool_execute q w1 of
                       (Inl e, w2) \<Rightarrow> (Inl e, s1, w2)
                     | (Inr rows, w2) \<Rightarrow>
                         (Inr (Response 200 True ''Registration successful. Redirecting to login...''),
                          s1, w2)))))"

definition register ::
  "bcrypt \<Rightarrow> string \<Rightarrow> body \<Rightarrow> server \<Rightarrow> world \<Rightarrow> response \<times> server \<times> world" where
  "register bc salt b s w =
     (if \<not> truthy (b ''user_id'') \<or> \<not> truthy (b ''name'') \<or> \<not> truthy (b ''email'')
         \<or> \<not> truthy (b ''phone'') \<or> \<not> truthy (b ''password'')
      then (Response 400 False ''All fields are required.'', s, w)
      else (case register_try bc salt b s w of
              (Inl err, s1, w1) \<Rightarrow> (register_catch err, s1, w1)
            | (Inr res, s1, w1) \<Rightarrow> (res, s1, w1)))"

subsection \<open>POST /api/login\<close>

text \<open>The \<open>catch\<close> block of the login handler.\<close>

definition login_catch :: "js_error \<Rightarrow> response" where
  "login_catch err =
     (if err_message err \<noteq> [] \<and> includes_str (err_message err) ''DB_PASSWORD''
      then Response 500 False ''Database configuration error. Check Vercel environment variables.''
      else if err_code err = Some ''ECONNREFUSED'' \<or> err_code err = Some ''ETIMEDOUT''
              \<or> err_code err = Some ''PROTOCOL_CONNECTION_LOST''
      then Response 500 False ''Database connection failed. Please try again later.''
      else if err_code err = Some ''ENOTFOUND''
      then Response 500 False ''Database host not found. Check DB_HOST environment variable.''
      else Response 500 False ''Server error. Please try again.'')"

text \<open>What the handler does with the rows of the lookup: only \<open>rows[0]\<close> is read.\<close>

definition check_rows :: "bcrypt \<Rightarrow> jsval \<Rightarrow> user_row list \<Rightarrow> js_error + response" where
  "check_rows bc pw rows =
     (case rows of
        [] \<Rightarrow> Inr (Response 401 False ''Invalid User ID/Email or password.'')
      | user # rest \<Rightarrow>
          (case compare_js bc pw (row_password user) of
             Inl e \<Rightarrow> Inl e
           | Inr passwordMatch \<Rightarrow>
               if \<not> passwordMatch
               then Inr (Response 401 False ''Invalid User ID/Email or password.'')
               else Inr (Response 200 True ''Login successful!'')))"

text \<open>The \<open>try\<close> block of the login handler.\<close>

definition login_try ::
  "bcrypt \<Rightarrow> body \<Rightarrow> server \<Rightarrow> world \<Rightarrow> (js_error + response) \<times> server \<times> world" where
  "login_try bc b s w =
     (case ensureDb s w of
        (Inl e, s1, w1) \<Rightarrow> (Inl e, s1, w1)
      | (Inr u, s1, w1) \<Rightarrow>
          (case trim_js ''loginId'' (b ''loginId'') of
             Inl e \<Rightarrow> (Inl e, s1, w1)
           | Inr ident \<Rightarrow>
               (case pool_execute (SelectUser ident ident) w1 of
                  (Inl e, w2) \<Rightarrow> (Inl e, s1, w2)
                | (Inr rows, w2) \<Rightarrow> (check_rows bc (b ''password'') rows, s1, w2))))"

definition login :: "bcrypt \<Rightarrow> body \<Rightarrow> server \<Rightarrow> world \<Rightarrow> response \<times> server \<times> world" where
  "login bc b s w =
     (if \<not> truthy (b ''loginId'') \<or> \<not> truthy (b ''password'')
      then (Response 400 False ''User ID/Email and password are required.'', s, w)
      else (case login_try bc b s w of
              (Inl err, s1, w1) \<Rightarrow> (login_catch err, s1, w1)
            | (Inr res, s1, w1) \<Rightarrow> (res, s1, w1)))"

subsection \<open>The outcomes of the error taxonomy\<close>

text \<open>
  The classes of outcome, read off the responses of the two handlers: the status and the
  message decide the class.
\<close>

datatype outcome =
    Success | ValidationError | DuplicateUserError | InvalidCredentialsError
  | StoreUnavailableError | InternalError

definition classify :: "response \<Rightarrow> outcome" where
  "classify r =
     (if success r then Success
      else if status r = 401 then InvalidCredentialsError
      else if status r = 400 then
        (if message r = ''User ID or Email already exists.'' then DuplicateUserError
         else ValidationError)
      else if message r = ''Server error. Please try again.'' then InternalError
      else StoreUnavailableError)"

section \<open>Observations on a run\<close>

text \<open>The rows of the \<open>users\<close> table, none while the table is missing.\<close>

definition stored_rows :: "world \<Rightarrow> user_row list" where
  "stored_rows w = (case users (db w) of None \<Rightarrow> [] | Some t \<Rightarrow> t)"

section \<open>Sample data\<close>

text \<open>A parsed JSON object: the listed keys, every other key \<open>undefined\<close>.\<close>

definition json_object :: "(string \<times> jsval) list \<Rightarrow> body" where
  "json_object kvs k = (case map_of kvs k of None \<Rightarrow> JUndefined | Some v \<Rightarrow> v)"

text \<open>The payloads that script.js posts, with the values as they arrive at the server.\<close>

definition register_payload :: "string \<Rightarrow> string \<Rightarrow> string \<Rightarrow> string \<Rightarrow> string \<Rightarrow> body" where
  "register_payload u n e ph p =
     json_object [(''user_id'', JStr u), (''name'', JStr n), (''email'', JStr e),
                  (''phone'', JStr ph), (''password'', JStr p)]"

definition login_payload :: "string \<Rightarrow> string \<Rightarrow> body" where
  "login_payload i p = json_object [(''loginId'', JStr i), (''password'', JStr p)]"

text \<open>
  A stand-in for the bcrypt library, to run the handlers on sample data: the hash is the
  data behind a fixed prefix, whatever the salt. The general lemmas hold for every
  library \<open>bc\<close>.
\<close>

definition example_bcrypt :: bcrypt where
  "example_bcrypt =
     \<lparr>bcrypt_hash = (\<lambda>p r s. ''$2b$'' @ p), bcrypt_compare = (\<lambda>p h. h = ''$2b$'' @ p)\<rparr>"

text \<open>A reachable database without the table, and one that holds the given rows.\<close>

definition fresh_world :: world where
  "fresh_world = \<lparr>db = \<lparr>users = None, next_id = 1, clock = 0\<rparr>, fault = None, calls = []\<rparr>"

definition world_with :: "user_row list \<Rightarrow> world" where
  "world_with t = \<lparr>db = \<lparr>users = Some t, next_id = Suc (length t), clock = 0\<rparr>,
                   fault = None, calls = []\<rparr>"

text \<open>The error of a connection that the store refuses.\<close>

definition connection_refused :: js_error where
  "connection_refused = JsError ''connect ECONNREFUSED 10.0.0.5:26553'' (Some ''ECONNREFUSED'')"

text \<open>The server after a successful initialisation.\<close>

definition ready_server :: server where
  "ready_server = \<lparr>dbReady = Some (Inr ()), dbInitError = None\<rparr>"

section \<open>Running the model\<close>

lemmas fixture_defs = example_bcrypt_def json_object_def register_payload_def login_payload_def
  fresh_world_def world_with_def ready_server_def initial_server_def connection_refused_def

lemma initDatabase_cases:
  "initDatabase w =
     (case fault w of
        Some e \<Rightarrow> (Inl e, w\<lparr>calls := calls w @ [Connect]\<rparr>)
      | None \<Rightarrow> (Inr (), w\<lparr>db := create_users_table (db w),
                             calls := calls w @ [Connect, Query CreateUsersTable]\<rparr>))"
  by (simp add: initDatabase_def pool_connect_def client_query_def log_call_def
      split: option.splits)

lemmas run_defs = register_def register_try_def register_catch_def login_def login_try_def
  login_catch_def check_rows_def ensureDb_def initDatabase_cases pool_execute_def
  insert_statement_def create_users_table_def trim_def is_ws_def classify_def stored_rows_def

subsection \<open>The initialisation\<close>


lemma ensureDb_cached:
  "dbReady s = Some (Inr ()) \<Longrightarrow> dbInitError s = None \<Longrightarrow> ensureDb s w = (Inr (), s, w)"
  by (simp add: ensureDb_def)

lemma ensureDb_again:
  assumes "ensureDb s w = (Inr u, s1, w1)"
  shows "ensureDb s1 w1 = (Inr (), s1, w1)"
proof -
  have "dbReady s1 = Some (Inr ()) \<and> dbInitError s1 = None"
    using assms
    by (auto simp: ensureDb_def initDatabase_cases split: option.splits sum.splits if_splits)
  then show ?thesis by (simp add: ensureDb_cached)
qed

lemma ensureDb_calls:
  "calls (snd (snd (ensureDb s w))) = calls w
   \<or> calls (snd (snd (ensureDb s w))) = calls w @ [Connect]
   \<or> calls (snd (snd (ensureDb s w))) = calls w @ [Connect, Query CreateUsersTable]"
  by (auto simp: ensureDb_def initDatabase_cases split: option.splits sum.splits)

lemma initDatabase_creates:
  "fault w = None \<Longrightarrow> users (db w) = None \<Longrightarrow> users (db (snd (initDatabase w))) = Some []"
  by (simp add: initDatabase_cases create_users_table_def)

subsection \<open>What the handlers do with an error and with rows\<close>

text \<open>
  The branches that the claims describe are in the handlers: a duplicate-entry error is
  answered with the combined message, an empty lookup and a password that does not match
  the first row with the same 401, and only the first row is read; the password goes to
  bcrypt as it was supplied.
\<close>

lemma register_catch_duplicate:
  "err_code err = Some ''ER_DUP_ENTRY'' \<Longrightarrow>
     register_catch err = Response 400 False ''User ID or Email already exists.''"
  by (simp add: register_catch_def)

lemma check_rows_empty:
  "check_rows bc pw [] = Inr (Response 401 False ''Invalid User ID/Email or password.'')"
  by (simp add: check_rows_def)

lemma check_rows_first_row:
  "check_rows bc (JStr q) (user # rest) =
     Inr (if bcrypt_compare bc q (row_password user)
          then Response 200 True ''Login successful!''
          else Response 401 False ''Invalid User ID/Email or password.'')"
  by (simp add: check_rows_def)

lemma hash_js_as_supplied: "hash_js bc (JStr p) 10 salt = Inr (bcrypt_hash bc p 10 salt)"
  by simp

lemma insert_statement_strings:
  assumes "b ''user_id'' = JStr u" "b ''name'' = JStr n" "b ''email'' = JStr e"
    "b ''phone'' = JStr ph"
  shows "insert_statement b h = Inr (InsertUser (trim u) (trim n) (trim e) (trim ph) h)"
  using assms by (simp add: insert_statement_def)

subsection \<open>The errors thrown inside the handlers\<close>

text \<open>
  The errors that arise after the initialisation (from bcrypt, from \<open>trim\<close> on a value
  that is no string, from \<open>pool.execute\<close>) carry no code, and their messages do not
  mention \<open>DB_PASSWORD\<close>: both \<open>catch\<close> blocks answer them with the general message.
\<close>

lemma trim_js_error:
  "trim_js var v = Inl e \<Longrightarrow> e = JsError (var @ ''.trim is not a function'') None"
  by (cases v) auto

lemma hash_js_error:
  "hash_js bc v r s = Inl e \<Longrightarrow>
     err_code e = None \<and> \<not> includes_str (err_message e) ''DB_PASSWORD''"
  by (cases v) auto

lemma insert_statement_error:
  assumes "insert_statement b h = Inl e"
  shows "err_code e = None \<and> \<not> includes_str (err_message e) ''DB_PASSWORD''"
proof -
  have "e = JsError (''user_id'' @ ''.trim is not a function'') None
      \<or> e = JsError (''name'' @ ''.trim is not a function'') None
      \<or> e = JsError (''email'' @ ''.trim is not a function'') None
      \<or> e = JsError (''phone'' @ ''.trim is not a function'') None"
    using assms
    by (auto simp: insert_statement_def split: sum.splits dest: trim_js_error)
  then show ?thesis
    by (elim disjE) simp_all
qed

lemma register_catch_plain:
  "err_code e = None \<Longrightarrow> \<not> includes_str (err_message e) ''DB_PASSWORD'' \<Longrightarrow>
     register_catch e = Response 500 False ''Server error. Please try again.''"
  by (simp add: register_catch_def)

lemma login_catch_plain:
  "err_code e = None \<Longrightarrow> \<not> includes_str (err_message e) ''DB_PASSWORD'' \<Longrightarrow>
     login_catch e = Response 500 False ''Server error. Please try again.''"
  by (simp add: login_catch_def)

lemma register_try_after_init:
  assumes "ensureDb s w = (Inr u, s1, w1)"
  shows "\<exists>e. register_try bc salt b s w = (Inl e, s1, w1)
            \<and> err_code e = None \<and> \<not> includes_str (err_message e) ''DB_PASSWORD''"
proof (cases "hash_js bc (b ''password'') 10 salt")
  case (Inl e)
  then have "register_try bc salt b s w = (Inl e, s1, w1)"
    using assms by (simp add: register_try_def)
  then show ?thesis
    using hash_js_error[OF Inl] by blast
next
  case (Inr h)
  show ?thesis
  proof (cases "insert_statement b h")
    case (Inl e)
    then have "register_try bc salt b s w = (Inl e, s1, w1)"
      using assms Inr by (simp add: register_try_def)
    then show ?thesis
      using insert_statement_error[OF Inl] by blast
  next
    case ins: (Inr q)
    have "register_try bc salt b s w
          = (Inl (JsError ''pool.execute is not a function'' None), s1, w1)"
      using assms Inr ins by (simp add: register_try_def pool_execute_def)
    moreover have "\<not> includes_str ''pool.execute is not a function'' ''DB_PASSWORD''"
      by simp
    ultimately show ?thesis by simp
  qed
qed

lemma register_after_init:
  assumes "truthy (b ''user_id'')" "truthy (b ''name'')" "truthy (b ''email'')"
    "truthy (b ''phone'')" "truthy (b ''password'')"
    and "ensureDb s w = (Inr u, s1, w1)"
  shows "register bc salt b s w = (Response 500 False ''Server error. Please try again.'', s1, w1)"
proof -
  from register_try_after_init[OF assms(6)] obtain e where
    "register_try bc salt b s w = (Inl e, s1, w1)"
    "err_code e = None" "\<not> includes_str (err_message e) ''DB_PASSWORD''"
    by blast
  then show ?thesis
    using assms(1-5) by (simp add: register_def register_catch_plain)
qed

lemma login_try_after_init:
  assumes "ensureDb s w = (Inr u, s1, w1)"
  shows "\<exists>e. login_try bc b s w = (Inl e, s1, w1)
            \<and> err_code e = None \<and> \<not> includes_str (err_message e) ''DB_PASSWORD''"
proof (cases "trim_js ''loginId'' (b ''loginId'')")
  case (Inl e)
  then have "login_try bc b s w = (Inl e, s1, w1)"
    using assms by (simp add: login_try_def)
  moreover have "e = JsError (''loginId'' @ ''.trim is not a function'') None"
    using Inl by (rule trim_js_error)
  ultimately show ?thesis by simp
next
  case (Inr ident)
  have "login_try bc b s w = (Inl (JsError ''pool.execute is not a function'' None), s1, w1)"
    using assms Inr by (simp add: login_try_def pool_execute_def)
  moreover have "\<not> includes_str ''pool.execute is not a function'' ''DB_PASSWORD''"
    by simp
  ultimately show ?thesis by simp
qed

lemma login_after_init:
  assumes "truthy (b ''loginId'')" "truthy (b ''password'')"
    and "ensureDb s w = (Inr u, s1, w1)"
  shows "login bc b s w = (Response 500 False ''Server error. Please try again.'', s1, w1)"
proof -
  from login_try_after_init[OF assms(3)] obtain e where
    "login_try bc b s w = (Inl e, s1, w1)"
    "err_code e = None" "\<not> includes_str (err_message e) ''DB_PASSWORD''"
    by blast
  then show ?thesis
    using assms(1,2) by (simp add: login_def login_catch_plain)
qed


lemma login_init_failure:
  assumes "truthy (b ''loginId'')" "truthy (b ''password'')"
    and "ensureDb s w = (Inl err, s1, w1)"
  shows "login bc b s w = (login_catch err, s1, w1)"
  using assms by (simp add: login_def login_try_def)

subsection \<open>No request gets through to the table\<close>


lemma login_catch_fails: "\<not> success (login_catch err)"
  by (simp add: login_catch_def)


lemma login_never_succeeds: "\<not> success (fst (login bc b s w))"
proof (cases "truthy (b ''loginId'') \<and> truthy (b ''password'')")
  case False
  then show ?thesis by (auto simp: login_def)
next
  case True
  obtain r s1 w1 where e: "ensureDb s w = (r, s1, w1)" by (cases "ensureDb s w") auto
  show ?thesis
  proof (cases r)
    case (Inl err)
    then have "login bc b s w = (login_catch err, s1, w1)"
      using True e by (simp add: login_init_failure)
    then show ?thesis by (simp add: login_catch_fails)
  next
    case (Inr u)
    then have "login bc b s w = (Response 500 False ''Server error. Please try again.'', s1, w1)"
      using True e by (simp add: login_after_init)
    then show ?thesis by simp
  qed
qed


subsection \<open>An initialisation that fails\<close>


text \<open>
  The two \<open>catch\<close> blocks differ: a host that cannot be resolved (\<open>ENOTFOUND\<close>) and a lost
  connection (\<open>PROTOCOL_CONNECTION_LOST\<close>) get a message of their own from the login
  handler and the general message from the registration handler.
\<close>

lemma catch_blocks_differ:
  "register_catch (JsError ''getaddrinfo ENOTFOUND db.example.com'' (Some ''ENOTFOUND''))
     = Response 500 False ''Server error. Please try again.''
   \<and> login_catch (JsError ''getaddrinfo ENOTFOUND db.example.com'' (Some ''ENOTFOUND''))
     = Response 500 False ''Database host not found. Check DB_HOST environment variable.''
   \<and> register_catch (JsError ''Connection lost'' (Some ''PROTOCOL_CONNECTION_LOST''))
     = Response 500 False ''Server error. Please try again.''
   \<and> login_catch (JsError ''Connection lost'' (Some ''PROTOCOL_CONNECTION_LOST''))
     = Response 500 False ''Database connection failed. Please try again later.''"
  by (simp add: register_catch_def login_catch_def)

section \<open>The claims\<close>

text \<open>
  Claim C1 says that a registration whose user id or email is already stored fails with
  DuplicateUserError and the combined message. The handler has that branch (lemma
  \<open>register_catch_duplicate\<close>), but the INSERT never reaches the store: once the store is
  initialised, every registration that passes the validation, whatever the table holds,
  throws at \<open>pool.execute\<close> and is answered with status 500 and ``Server error. Please
  try again.'', the InternalError.
\<close>

theorem register_duplicate_server_error:
  assumes "truthy (b ''user_id'')" "truthy (b ''name'')" "truthy (b ''email'')"
    "truthy (b ''phone'')" "truthy (b ''password'')"
    and "ensureDb s w = (Inr u, s1, w1)"
  shows "register bc salt b s w = (Response 500 False ''Server error. Please try again.'', s1, w1)
       \<and> classify (fst (register bc salt b s w)) = InternalError"
  using register_after_init[OF assms, of bc salt] by (simp add: classify_def)

text \<open>
  With \<open>alice1\<close> stored: a registration that reuses the user id, and one that reuses the
  email.
\<close>

theorem register_duplicate_server_error_witness:
  "register example_bcrypt ''salt''
     (register_payload ''alice1'' ''Alicia'' ''other@x.com'' ''555-0199'' ''pw2'')
     ready_server (world_with [UserRow 1 ''alice1'' ''Alice'' ''a@x.com'' ''555-0100'' ''$2b$Secr3t!'' 0])
   = (Response 500 False ''Server error. Please try again.'', ready_server, world_with [UserRow 1 ''alice1'' ''Alice'' ''a@x.com'' ''555-0100'' ''$2b$Secr3t!'' 0])
   \<and> register example_bcrypt ''salt''
     (register_payload ''alice2'' ''Alicia'' ''a@x.com'' ''555-0199'' ''pw2'')
     ready_server (world_with [UserRow 1 ''alice1'' ''Alice'' ''a@x.com'' ''555-0100'' ''$2b$Secr3t!'' 0])
   = (Response 500 False ''Server error. Please try again.'', ready_server, world_with [UserRow 1 ''alice1'' ''Alice'' ''a@x.com'' ''555-0100'' ''$2b$Secr3t!'' 0])"
proof -
  have e: "ensureDb ready_server (world_with [UserRow 1 ''alice1'' ''Alice'' ''a@x.com'' ''555-0100'' ''$2b$Secr3t!'' 0])
           = (Inr (), ready_server, world_with [UserRow 1 ''alice1'' ''Alice'' ''a@x.com'' ''555-0100'' ''$2b$Secr3t!'' 0])"
    by (simp add: ensureDb_def ready_server_def)
  show ?thesis
    using
      register_duplicate_server_error[where bc = example_bcrypt and salt = "''salt''"
        and b = "register_payload ''alice1'' ''Alicia'' ''other@x.com'' ''555-0199'' ''pw2''",
        OF _ _ _ _ _ e]
      register_duplicate_server_error[where bc = example_bcrypt and salt = "''salt''"
        and b = "register_payload ''alice2'' ''Alicia'' ''a@x.com'' ''555-0199'' ''pw2''",
        OF _ _ _ _ _ e]
    by (simp add: register_payload_def json_object_def)
qed



text \<open>
  Claim C3 says that a login with an unknown identifier and a login with a known
  identifier and a wrong password both fail with InvalidCredentialsError and the same
  message. The handler has both branches (lemmas \<open>check_rows_empty\<close> and
  \<open>check_rows_first_row\<close>), but the lookup throws before any row is read: once the store
  is initialised, any two logins that pass the validation are answered with status 500,
  the InternalError, not with 401.
\<close>

theorem login_failures_server_error:
  assumes "truthy (b1 ''loginId'')" "truthy (b1 ''password'')"
    and "truthy (b2 ''loginId'')" "truthy (b2 ''password'')"
    and "ensureDb s w = (Inr u, s1, w1)"
  shows "fst (login bc b1 s w) = Response 500 False ''Server error. Please try again.''
       \<and> fst (login bc b2 s w) = Response 500 False ''Server error. Please try again.''
       \<and> classify (fst (login bc b1 s w)) = InternalError
       \<and> classify (fst (login bc b2 s w)) = InternalError"
  using login_after_init[OF assms(1,2,5), of bc] login_after_init[OF assms(3,4,5), of bc]
  by (simp add: classify_def)

text \<open>With \<open>alice1\<close> stored: an unknown identifier, and \<open>alice1\<close> with a wrong password.\<close>

theorem login_failures_server_error_witness:
  "fst (login example_bcrypt (login_payload ''nobody'' ''Secr3t!'') ready_server
          (world_with [UserRow 1 ''alice1'' ''Alice'' ''a@x.com'' ''555-0100'' ''$2b$Secr3t!'' 0])) = Response 500 False ''Server error. Please try again.''
   \<and> fst (login example_bcrypt (login_payload ''alice1'' ''wrong'') ready_server
          (world_with [UserRow 1 ''alice1'' ''Alice'' ''a@x.com'' ''555-0100'' ''$2b$Secr3t!'' 0])) = Response 500 False ''Server error. Please try again.''"
proof -
  have e: "ensureDb ready_server (world_with [UserRow 1 ''alice1'' ''Alice'' ''a@x.com'' ''555-0100'' ''$2b$Secr3t!'' 0])
           = (Inr (), ready_server, world_with [UserRow 1 ''alice1'' ''Alice'' ''a@x.com'' ''555-0100'' ''$2b$Secr3t!'' 0])"
    by (simp add: ensureDb_def ready_server_def)
  show ?thesis
    using login_failures_server_error[where bc = example_bcrypt
        and ?b1.0 = "login_payload ''nobody'' ''Secr3t!''"
        and ?b2.0 = "login_payload ''alice1'' ''wrong''", OF _ _ _ _ e]
    by (simp add: login_payload_def json_object_def)
qed

text \<open>
  Claim C4, as amended. When one of the five fields is missing or empty as it was
  supplied (any falsy value: the test comes before the trimming), the registration is
  answered with status 400 and ``All fields are required.'', a ValidationError, and
  neither the server nor the world changes: no call reaches the store and no row is
  inserted.
\<close>

theorem register_validation:
  assumes "\<not> truthy (b ''user_id'') \<or> \<not> truthy (b ''name'') \<or> \<not> truthy (b ''email'')
           \<or> \<not> truthy (b ''phone'') \<or> \<not> truthy (b ''password'')"
  shows "register bc salt b s w = (Response 400 False ''All fields are required.'', s, w)
         \<and> classify (fst (register bc salt b s w)) = ValidationError"
  using assms by (simp add: register_def classify_def)

theorem register_validation_witness:
  "register example_bcrypt ''salt''
     (register_payload ''alice1'' ''Alice'' ''a@x.com'' [] ''Secr3t!'') initial_server fresh_world
   = (Response 400 False ''All fields are required.'', initial_server, fresh_world)
   \<and> register example_bcrypt ''salt''
     (json_object [(''user_id'', JStr ''alice1''), (''name'', JStr ''Alice''),
                   (''email'', JStr ''a@x.com''), (''password'', JStr ''Secr3t!'')])
     initial_server fresh_world
   = (Response 400 False ''All fields are required.'', initial_server, fresh_world)"
  using
    register_validation[where bc = example_bcrypt and salt = "''salt''"
      and b = "register_payload ''alice1'' ''Alice'' ''a@x.com'' [] ''Secr3t!''"
      and s = initial_server and w = fresh_world]
    register_validation[where bc = example_bcrypt and salt = "''salt''"
      and b = "json_object [(''user_id'', JStr ''alice1''), (''name'', JStr ''Alice''),
                            (''email'', JStr ''a@x.com''), (''password'', JStr ''Secr3t!'')]"
      and s = initial_server and w = fresh_world]
  by (simp add: json_object_def register_payload_def)

text \<open>
  Claim C4 as stated fails: a phone of three spaces is empty after trimming, yet the
  registration passes the test and goes on to the store, where the bootstrap runs; the
  answer is status 500, not the ValidationError.
\<close>

theorem register_whitespace_field_counterexample:
  "trim ''   '' = []
   \<and> register example_bcrypt ''salt''
        (register_payload ''alice1'' ''Alice'' ''a@x.com'' ''   '' ''Secr3t!'')
        initial_server fresh_world
      = (Response 500 False ''Server error. Please try again.'', ready_server,
         \<lparr>db = \<lparr>users = Some [], next_id = 1, clock = 0\<rparr>, fault = None,
          calls = [Connect, Query CreateUsersTable]\<rparr>)
   \<and> classify (Response 500 False ''Server error. Please try again.'') = InternalError"
  by (simp add: fixture_defs run_defs)



text \<open>
  Claim C6 says that every login finds its candidate record by one store query with the
  trimmed identifier on the \<open>user_id\<close> and the \<open>email\<close> column. The handler builds that one
  statement, but the call throws: no login succeeds, and the only calls that reach the
  store during a login are those of the bootstrap, so no query looks a record up.
\<close>

theorem login_sends_no_query:
  "\<not> success (fst (login bc b s w))
   \<and> (calls (snd (snd (login bc b s w))) = calls w
      \<or> calls (snd (snd (login bc b s w))) = calls w @ [Connect]
      \<or> calls (snd (snd (login bc b s w))) = calls w @ [Connect, Query CreateUsersTable])"
proof -
  have "snd (snd (login bc b s w)) = w \<or> snd (snd (login bc b s w)) = snd (snd (ensureDb s w))"
  proof (cases "truthy (b ''loginId'') \<and> truthy (b ''password'')")
    case False
    then show ?thesis by (auto simp: login_def)
  next
    case True
    obtain r s1 w1 where e: "ensureDb s w = (r, s1, w1)" by (cases "ensureDb s w") auto
    show ?thesis
    proof (cases r)
      case (Inl err)
      then have "login bc b s w = (login_catch err, s1, w1)"
        using True e by (simp add: login_init_failure)
      then show ?thesis using e by simp
    next
      case (Inr u)
      then have "login bc b s w = (Response 500 False ''Server error. Please try again.'', s1, w1)"
        using True e by (simp add: login_after_init)
      then show ?thesis using e by simp
    qed
  qed
  then show ?thesis
    using ensureDb_calls[of s w] login_never_succeeds[of bc b s w] by auto
qed

text \<open>
  With \<open>alice1\<close> stored, the login as \<open>alice1\<close>: on an initialised server nothing reaches
  the store, on a server that starts up only the bootstrap does.
\<close>

theorem login_sends_no_query_witness:
  "login example_bcrypt (login_payload '' alice1 '' ''Secr3t!'') ready_server
     (world_with [UserRow 1 ''alice1'' ''Alice'' ''a@x.com'' ''555-0100'' ''$2b$Secr3t!'' 0])
   = (Response 500 False ''Server error. Please try again.'', ready_server, world_with [UserRow 1 ''alice1'' ''Alice'' ''a@x.com'' ''555-0100'' ''$2b$Secr3t!'' 0])
   \<and> calls (world_with [UserRow 1 ''alice1'' ''Alice'' ''a@x.com'' ''555-0100'' ''$2b$Secr3t!'' 0]) = []
   \<and> calls (snd (snd (login example_bcrypt (login_payload '' alice1 '' ''Secr3t!'')
        initial_server (world_with [UserRow 1 ''alice1'' ''Alice'' ''a@x.com'' ''555-0100'' ''$2b$Secr3t!'' 0]))))
     = [Connect, Query CreateUsersTable]
   \<and> \<not> success (fst (login example_bcrypt (login_payload '' alice1 '' ''Secr3t!'')
        initial_server (world_with [UserRow 1 ''alice1'' ''Alice'' ''a@x.com'' ''555-0100'' ''$2b$Secr3t!'' 0])))"
proof -
  have a: "login example_bcrypt (login_payload '' alice1 '' ''Secr3t!'') ready_server
     (world_with [UserRow 1 ''alice1'' ''Alice'' ''a@x.com'' ''555-0100'' ''$2b$Secr3t!'' 0])
   = (Response 500 False ''Server error. Please try again.'', ready_server, world_with [UserRow 1 ''alice1'' ''Alice'' ''a@x.com'' ''555-0100'' ''$2b$Secr3t!'' 0])
   \<and> calls (world_with [UserRow 1 ''alice1'' ''Alice'' ''a@x.com'' ''555-0100'' ''$2b$Secr3t!'' 0]) = []
   \<and> calls (snd (snd (login example_bcrypt (login_payload '' alice1 '' ''Secr3t!'')
        initial_server (world_with [UserRow 1 ''alice1'' ''Alice'' ''a@x.com'' ''555-0100'' ''$2b$Secr3t!'' 0]))))
     = [Connect, Query CreateUsersTable]"
    by (simp add: fixture_defs run_defs)
  show ?thesis
    using a login_sends_no_query[of example_bcrypt "login_payload '' alice1 '' ''Secr3t!''"
        initial_server "world_with [UserRow 1 ''alice1'' ''Alice'' ''a@x.com'' ''555-0100'' ''$2b$Secr3t!'' 0]"]
    by simp
qed

text \<open>
  Claim C8. When the \<open>users\<close> table exists, \<open>initDatabase\<close> leaves the database as it
  is, whether or not the store can be reached, and so does \<open>ensureDb\<close>, which runs it at
  most once.
\<close>

theorem bootstrap_idempotent:
  "users (db w) \<noteq> None \<Longrightarrow>
     db (snd (initDatabase w)) = db w \<and> db (snd (snd (ensureDb s w))) = db w"
  by (auto simp: ensureDb_def initDatabase_cases create_users_table_def
      split: option.splits sum.splits)

theorem bootstrap_idempotent_witness:
  "db (snd (initDatabase
        (world_with [UserRow 1 ''alice1'' ''Alice'' ''a@x.com'' ''555-0100'' ''$2b$Secr3t!'' 0])))
     = \<lparr>users = Some [UserRow 1 ''alice1'' ''Alice'' ''a@x.com'' ''555-0100'' ''$2b$Secr3t!'' 0],
        next_id = 2, clock = 0\<rparr>
   \<and> db (snd (snd (ensureDb initial_server
        (world_with [UserRow 1 ''alice1'' ''Alice'' ''a@x.com'' ''555-0100'' ''$2b$Secr3t!'' 0]))))
     = \<lparr>users = Some [UserRow 1 ''alice1'' ''Alice'' ''a@x.com'' ''555-0100'' ''$2b$Secr3t!'' 0],
        next_id = 2, clock = 0\<rparr>"
  using bootstrap_idempotent[where s = initial_server
      and w = "world_with [UserRow 1 ''alice1'' ''Alice'' ''a@x.com'' ''555-0100'' ''$2b$Secr3t!'' 0]"]
  by (simp add: world_with_def)

text \<open>
  Claim C9 says that when the identifier matches two stored records, the password is
  compared with the first row only and the login fails with InvalidCredentialsError. The
  handler reads \<open>rows[0]\<close> only (lemma \<open>check_rows_first_row\<close>), but no rows come back:
  once the store is initialised, a login that passes the validation is answered with
  status 500, the InternalError, whatever rows the table holds, and the server and the
  world stay as the initialisation left them.
\<close>

theorem login_two_matches_server_error:
  assumes "truthy (lb ''loginId'')" "truthy (lb ''password'')"
    and "ensureDb s w = (Inr u, s1, w1)"
  shows "login bc lb s w = (Response 500 False ''Server error. Please try again.'', s1, w1)
       \<and> classify (fst (login bc lb s w)) = InternalError"
  using login_after_init[OF assms, of bc] by (simp add: classify_def)

text \<open>
  \<open>ann\<close> has the email \<open>bob\<close> and \<open>bob\<close> is the user id of the second row; the login is
  \<open>bob\<close> with the password of the second row.
\<close>

theorem login_two_matches_server_error_witness:
  "row_email (UserRow 1 ''ann'' ''Ann'' ''bob'' ''555-0100'' ''$2b$pa'' 0) = ''bob''
   \<and> row_user_id (UserRow 2 ''bob'' ''Bob'' ''b@x.com'' ''555-0101'' ''$2b$pb'' 0) = ''bob''
   \<and> fst (login example_bcrypt (login_payload ''bob'' ''pb'') ready_server
        (world_with [UserRow 1 ''ann'' ''Ann'' ''bob'' ''555-0100'' ''$2b$pa'' 0,
                     UserRow 2 ''bob'' ''Bob'' ''b@x.com'' ''555-0101'' ''$2b$pb'' 0])) = Response 500 False ''Server error. Please try again.''"
proof -
  have e: "ensureDb ready_server
             (world_with [UserRow 1 ''ann'' ''Ann'' ''bob'' ''555-0100'' ''$2b$pa'' 0,
                          UserRow 2 ''bob'' ''Bob'' ''b@x.com'' ''555-0101'' ''$2b$pb'' 0])
           = (Inr (), ready_server,
              world_with [UserRow 1 ''ann'' ''Ann'' ''bob'' ''555-0100'' ''$2b$pa'' 0,
                          UserRow 2 ''bob'' ''Bob'' ''b@x.com'' ''555-0101'' ''$2b$pb'' 0])"
    by (simp add: ensureDb_def ready_server_def)
  show ?thesis
    using login_two_matches_server_error[where bc = example_bcrypt
        and lb = "login_payload ''bob'' ''pb''", OF _ _ e]
    by (simp add: login_payload_def json_object_def)
qed

text \<open>
  Claim C10 says that the password is never trimmed, so that registering with one
  password and logging in with a variant in surrounding white space fails with
  InvalidCredentialsError. The handlers do pass the password to bcrypt as supplied (lemmas
  \<open>hash_js_as_supplied\<close> and \<open>check_rows_first_row\<close>), but neither call gets to its end:
  once the store is initialised, the registration with a password and the login with any
  other non-empty password are both answered with status 500, the InternalError.
\<close>

theorem password_variant_server_error:
  assumes "truthy (rb ''user_id'')" "truthy (rb ''name'')" "truthy (rb ''email'')"
    "truthy (rb ''phone'')" "rb ''password'' = JStr p" "p \<noteq> []"
    and "ensureDb s w = (Inr u, s1, w1)"
    and "truthy (lb ''loginId'')" "lb ''password'' = JStr q" "q \<noteq> []"
  shows "fst (register bc salt rb s w) = Response 500 False ''Server error. Please try again.''
       \<and> fst (login bc lb s1 w1) = Response 500 False ''Server error. Please try again.''
       \<and> classify (fst (login bc lb s1 w1)) = InternalError"
proof -
  have tp: "truthy (rb ''password'')" using assms(5,6) by simp
  have tq: "truthy (lb ''password'')" using assms(9,10) by simp
  show ?thesis
    using register_after_init[OF assms(1-4) tp assms(7), of bc salt]
      login_after_init[OF assms(8) tq ensureDb_again[OF assms(7)], of bc]
    by (simp add: classify_def)
qed

text \<open>\<open>alice1\<close> registers with \<open>Secr3t!\<close> and logs in with a space after it.\<close>

theorem password_variant_server_error_witness:
  "trim ''Secr3t! '' = trim ''Secr3t!''
   \<and> fst (register example_bcrypt ''salt''
        (register_payload ''alice1'' ''Alice'' ''a@x.com'' ''555-0100'' ''Secr3t!'')
        ready_server (world_with [])) = Response 500 False ''Server error. Please try again.''
   \<and> fst (login example_bcrypt (login_payload ''alice1'' ''Secr3t! '') ready_server
        (world_with [])) = Response 500 False ''Server error. Please try again.''"
proof -
  have e: "ensureDb ready_server (world_with []) = (Inr (), ready_server, world_with [])"
    by (simp add: ensureDb_def ready_server_def)
  have t: "trim ''Secr3t! '' = trim ''Secr3t!''"
    by (simp add: trim_def is_ws_def)
  show ?thesis
    using t password_variant_server_error[where bc = example_bcrypt and salt = "''salt''"
        and rb = "register_payload ''alice1'' ''Alice'' ''a@x.com'' ''555-0100'' ''Secr3t!''"
        and lb = "login_payload ''alice1'' ''Secr3t! ''"
        and p = "''Secr3t!''" and q = "''Secr3t! ''", OF _ _ _ _ _ _ e]
    by (simp add: register_payload_def login_payload_def json_object_def)
qed




end
